theory Spec2Isabelle
  imports Complex_Main
begin

section \<open>The CODAGE11 3D pricer: estimator and price calculation of main.py\<close>

text \<open>
  The two pure functions of \<^verbatim>\<open>main.py\<close> are embedded: \<^verbatim>\<open>analyze_3d_file_simple\<close>
  (the estimator) and \<^verbatim>\<open>calculate_price\<close> (the pricer), together with the two
  module-level tables \<^verbatim>\<open>MATERIALS\<close> and \<^verbatim>\<open>PRICING_CONFIG\<close>.

  Numbers. Python's \<^verbatim>\<open>int\<close> is \<open>int\<close>. Python's \<^verbatim>\<open>float\<close> is modelled by the
  exact reals: a literal such as \<^verbatim>\<open>1.24\<close> is the decimal fraction \<open>124 / 100\<close>, the
  arithmetic operators are the exact field operations, and \<^verbatim>\<open>round(x, n)\<close> rounds the
  exact value to \<open>n\<close> decimals, ties going to the even neighbour. Binary rounding error,
  infinities and NaN are outside this model.

  Errors. A \<^verbatim>\<open>raise\<close> and a division by zero are values of \<open>py_error\<close>, and a function
  that can raise returns \<open>py_error + 'a\<close>.
\<close>

subsection \<open>Python primitives\<close>

datatype py_error = ValueError string | ZeroDivisionError

text \<open>\<^verbatim>\<open>x / y\<close> on floats: raises \<^verbatim>\<open>ZeroDivisionError\<close> when \<open>y\<close> is zero.\<close>

definition py_div :: "real \<Rightarrow> real \<Rightarrow> py_error + real" where
  "py_div x y = (if y = 0 then Inl ZeroDivisionError else Inr (x / y))"

text \<open>Rounding to the nearest integer, a tie going to the even neighbour.\<close>

definition round_half_even :: "real \<Rightarrow> int" where
  "round_half_even x =
     (let f = \<lfloor>x\<rfloor>; d = x - of_int f
      in if d < 1 / 2 then f else if 1 / 2 < d then f + 1 else if even f then f else f + 1)"

text \<open>\<^verbatim>\<open>round(x, ndigits)\<close> for a float \<open>x\<close> and \<open>ndigits \<ge> 0\<close>; the result is a float.\<close>

definition py_round :: "real \<Rightarrow> nat \<Rightarrow> real" where
  "py_round x ndigits = of_int (round_half_even (x * 10 ^ ndigits)) / 10 ^ ndigits"

text \<open>\<^verbatim>\<open>int(x)\<close> for a float \<open>x\<close>: truncation towards zero.\<close>

definition py_int :: "real \<Rightarrow> int" where
  "py_int x = (if 0 \<le> x then \<lfloor>x\<rfloor> else \<lceil>x\<rceil>)"

subsection \<open>The tables\<close>

record mat_props =
  name :: string
  density :: real
  price_per_kg :: real
  print_speed_modifier :: real
  support_difficulty :: real

definition PLA :: mat_props where
  "PLA = \<lparr>name = ''PLA (Standard)'', density = 1.24, price_per_kg = 25.0,
          print_speed_modifier = 1.0, support_difficulty = 1.0\<rparr>"

definition ABS :: mat_props where
  "ABS = \<lparr>name = ''ABS (High Strength)'', density = 1.04, price_per_kg = 30.0,
          print_speed_modifier = 0.9, support_difficulty = 1.2\<rparr>"

definition PETG :: mat_props where
  "PETG = \<lparr>name = ''PETG (Chemical Resistant)'', density = 1.27, price_per_kg = 35.0,
           print_speed_modifier = 0.8, support_difficulty = 1.1\<rparr>"

definition TPU :: mat_props where
  "TPU = \<lparr>name = ''TPU (Flexible)'', density = 1.2, price_per_kg = 45.0,
          print_speed_modifier = 0.5, support_difficulty = 1.5\<rparr>"

text \<open>The dictionary \<^verbatim>\<open>MATERIALS\<close>: \<^verbatim>\<open>material not in MATERIALS\<close> is \<open>MATERIALS material = None\<close>.\<close>

definition MATERIALS :: "string \<rightharpoonup> mat_props" where
  "MATERIALS = [''PLA'' \<mapsto> PLA, ''ABS'' \<mapsto> ABS, ''PETG'' \<mapsto> PETG, ''TPU'' \<mapsto> TPU]"

record pricing_config =
  base_print_time_per_cm3 :: real
  machine_cost_per_hour :: real
  post_processing_base :: real
  support_cost_multiplier :: real
  margin :: real
  minimum_price :: real

definition PRICING_CONFIG :: pricing_config where
  "PRICING_CONFIG = \<lparr>base_print_time_per_cm3 = 2.0, machine_cost_per_hour = 15.0,
     post_processing_base = 5.0, support_cost_multiplier = 0.3, margin = 0.25,
     minimum_price = 5.0\<rparr>"

subsection \<open>The estimator\<close>

text \<open>The keys \<^verbatim>\<open>"x"\<close>, \<^verbatim>\<open>"y"\<close> and \<^verbatim>\<open>"z"\<close> of \<^verbatim>\<open>dimensions_cm\<close> are the fields \<open>dim_x\<close>, \<open>dim_y\<close>, \<open>dim_z\<close>.\<close>

record dimensions =
  dim_x :: real
  dim_y :: real
  dim_z :: real

record analysis =
  volume_cm3 :: real
  surface_area_cm2 :: real
  dimensions_cm :: dimensions
  face_count :: int
  vertex_count :: int
  complexity_factor :: real
  is_watertight :: bool
  needs_supports :: bool
  analysis_method :: string

text \<open>
  \<^verbatim>\<open>analyze_3d_file_simple(file_path, file_size)\<close>. The local \<^verbatim>\<open>file_ext\<close> is computed
  from \<^verbatim>\<open>file_path\<close> and never read, so the path does not reach the result. Over the
  exact reals no operation of the \<^verbatim>\<open>try\<close> block raises (the only divisors are the
  literals 100000, 1000000 and 50, and the base of the cube root is at least 1), so the
  \<^verbatim>\<open>except\<close> branch is not reachable and the function returns the record itself.
  (In Python the division of integers raises only when the quotient leaves the range
  of a float, above 10 to the power 308, which no file size reaches.)
\<close>

definition analyze_3d_file_simple :: "string \<Rightarrow> int \<Rightarrow> analysis" where
  "analyze_3d_file_simple file_path file_size =
     (let estimated_volume_cm3 = max 1.0 (of_int file_size / 100000 * 10);
          estimated_surface_area = estimated_volume_cm3 * 6;
          cube_side = estimated_volume_cm3 powr (1 / 3);
          dimensions_cm = \<lparr>dim_x = py_round (cube_side * 1.2) 2,
                           dim_y = py_round (cube_side * 0.8) 2,
                           dim_z = py_round (cube_side * 1.0) 2\<rparr>;
          complexity_factor = min 1.0 (of_int file_size / 1000000);
          face_count = py_int (of_int file_size / 50);
          vertex_count = py_int (of_int face_count * 0.6);
          is_watertight = True;
          needs_supports = (0.3 < complexity_factor)
      in \<lparr>volume_cm3 = py_round estimated_volume_cm3 3,
          surface_area_cm2 = py_round estimated_surface_area 2,
          dimensions_cm = dimensions_cm,
          face_count = face_count,
          vertex_count = vertex_count,
          complexity_factor = py_round complexity_factor 3,
          is_watertight = is_watertight,
          needs_supports = needs_supports,
          analysis_method = ''simplified_demo''\<rparr>)"

subsection \<open>The pricer\<close>

text \<open>
  The local variables of \<^verbatim>\<open>calculate_price\<close> as they stand after line 190 (the
  minimum price applied), before the \<^verbatim>\<open>return\<close> expression rounds them. The field
  \<open>supports_included\<close> is the local \<^verbatim>\<open>include_supports\<close> after line 145, a boolean.
\<close>

record price_locals =
  supports_included :: bool
  weight_g :: real
  material_cost :: real
  total_time_minutes :: real
  total_time_hours :: real
  machine_cost :: real
  post_processing :: real
  subtotal :: real
  margin_amount :: real
  total_price :: real

text \<open>Line 148: \<^verbatim>\<open>infill_multiplier = 0.1 + (infill / 100) * 0.9\<close>.\<close>

definition infill_multiplier :: "real \<Rightarrow> real" where
  "infill_multiplier infill = 0.1 + (infill / 100) * 0.9"

text \<open>
  Lines 140 to 190, for a material already looked up. The tri-state
  \<^verbatim>\<open>include_supports\<close> is \<open>None\<close> for Python's \<^verbatim>\<open>None\<close>. The two divisions by a
  variable (by \<^verbatim>\<open>layer_height\<close> on line 165 and by the material's speed modifier on
  line 171) go through \<open>py_div\<close>; the other divisors are non-zero literals.
\<close>

definition price_body ::
  "analysis \<Rightarrow> mat_props \<Rightarrow> real \<Rightarrow> real \<Rightarrow> bool option \<Rightarrow> py_error + price_locals" where
  "price_body analysis mat_props infill layer_height include_supports =
     (let volume_cm3 = volume_cm3 analysis;
          include_supports =
            (case include_supports of None \<Rightarrow> needs_supports analysis | Some b \<Rightarrow> b);
          effective_volume = volume_cm3 * infill_multiplier infill;
          effective_volume =
            (if include_supports then effective_volume + volume_cm3 * 0.15
             else effective_volume);
          weight_g = effective_volume * density mat_props;
          weight_kg = weight_g / 1000;
          material_cost = weight_kg * price_per_kg mat_props;
          base_time_minutes = volume_cm3 * base_print_time_per_cm3 PRICING_CONFIG
      in case py_div 0.2 layer_height of
           Inl e \<Rightarrow> Inl e
         | Inr m \<Rightarrow>
            (let layer_modifier = m;
                 speed_modifier = print_speed_modifier mat_props;
                 complexity_modifier = 1 + complexity_factor analysis * 0.5;
                 support_modifier = 1 + (if include_supports then 0.3 else 0)
             in case py_div (base_time_minutes * layer_modifier * complexity_modifier
                              * support_modifier) speed_modifier of
                  Inl e \<Rightarrow> Inl e
                | Inr t \<Rightarrow>
                   (let total_time_minutes = t;
                        total_time_hours = total_time_minutes / 60;
                        machine_cost =
                          total_time_hours * machine_cost_per_hour PRICING_CONFIG;
                        post_processing = post_processing_base PRICING_CONFIG;
                        post_processing =
                          (if include_supports
                           then post_processing
                                  + material_cost * support_cost_multiplier PRICING_CONFIG
                           else post_processing);
                        subtotal = material_cost + machine_cost + post_processing;
                        margin_amount = subtotal * margin PRICING_CONFIG;
                        total_price = subtotal + margin_amount;
                        total_price = max total_price (minimum_price PRICING_CONFIG)
                    in Inr \<lparr>supports_included = include_supports, weight_g = weight_g,
                            material_cost = material_cost,
                            total_time_minutes = total_time_minutes,
                            total_time_hours = total_time_hours,
                            machine_cost = machine_cost, post_processing = post_processing,
                            subtotal = subtotal, margin_amount = margin_amount,
                            total_price = total_price\<rparr>)))"

text \<open>
  The returned dictionary, section by section. Its keys \<^verbatim>\<open>"material"\<close>,
  \<^verbatim>\<open>"print_time"\<close>, \<^verbatim>\<open>"costs"\<close> and \<^verbatim>\<open>"parameters"\<close> are the fields \<open>q_material\<close>,
  \<open>q_print_time\<close>, \<open>q_costs\<close> and \<open>q_parameters\<close>; the keys of the \<^verbatim>\<open>"material"\<close>
  section carry the prefix \<open>m_\<close> and those of the \<^verbatim>\<open>"costs"\<close> section the prefix \<open>c_\<close>,
  so that \<open>m_cost\<close> is \<^verbatim>\<open>result["material"]["cost"]\<close> and \<open>c_material\<close> is
  \<^verbatim>\<open>result["costs"]["material"]\<close>.
\<close>

record material_section =
  m_type :: string
  m_name :: string
  m_weight_g :: real
  m_cost :: real

record print_time_section =
  hours :: real
  minutes :: real

record costs_section =
  c_material :: real
  c_machine_time :: real
  c_post_processing :: real
  c_subtotal :: real
  c_margin :: real
  c_total :: real

record parameters_section =
  infill_percent :: real
  layer_height_mm :: real
  includes_supports :: bool

record quote =
  q_material :: material_section
  q_print_time :: print_time_section
  q_costs :: costs_section
  q_parameters :: parameters_section

text \<open>
  \<^verbatim>\<open>calculate_price(analysis, material, infill, layer_height, include_supports)\<close>:
  the membership test of lines 137 and 138, the body, and the \<^verbatim>\<open>return\<close> expression of
  lines 192 to 216 with its roundings.
\<close>

definition calculate_price ::
  "analysis \<Rightarrow> string \<Rightarrow> real \<Rightarrow> real \<Rightarrow> bool option \<Rightarrow> py_error + quote" where
  "calculate_price analysis material infill layer_height include_supports =
     (case MATERIALS material of
        None \<Rightarrow> Inl (ValueError (''Unknown material: '' @ material))
      | Some mat_props \<Rightarrow>
         (case price_body analysis mat_props infill layer_height include_supports of
            Inl e \<Rightarrow> Inl e
          | Inr v \<Rightarrow>
             Inr \<lparr>q_material = \<lparr>m_type = material, m_name = name mat_props,
                                m_weight_g = py_round (weight_g v) 2,
                                m_cost = py_round (material_cost v) 2\<rparr>,
                  q_print_time = \<lparr>hours = py_round (total_time_hours v) 2,
                                  minutes = py_round (total_time_minutes v) 0\<rparr>,
                  q_costs = \<lparr>c_material = py_round (material_cost v) 2,
                             c_machine_time = py_round (machine_cost v) 2,
                             c_post_processing = py_round (post_processing v) 2,
                             c_subtotal = py_round (subtotal v) 2,
                             c_margin = py_round (margin_amount v) 2,
                             c_total = py_round (total_price v) 2\<rparr>,
                  q_parameters = \<lparr>infill_percent = infill, layer_height_mm = layer_height,
                                  includes_supports = supports_included v\<rparr>\<rparr>))"

section \<open>Properties\<close>

subsection \<open>Rounding\<close>

lemma rhe_floor_cases: "round_half_even x = \<lfloor>x\<rfloor> \<or> round_half_even x = \<lfloor>x\<rfloor> + 1"
  by (simp add: round_half_even_def Let_def)



lemma rhe_of_int [simp]: "round_half_even (of_int k) = k"
  by (simp add: round_half_even_def Let_def)

lemma rhe_mono:
  assumes "x \<le> y"
  shows "round_half_even x \<le> round_half_even y"
proof (cases "\<lfloor>x\<rfloor> = \<lfloor>y\<rfloor>")
  case True
  with assms show ?thesis
    unfolding round_half_even_def Let_def by (auto; linarith)
next
  case False
  with assms have "\<lfloor>x\<rfloor> < \<lfloor>y\<rfloor>"
    using floor_mono [of x y] by linarith
  moreover have "round_half_even x \<le> \<lfloor>x\<rfloor> + 1"
    using rhe_floor_cases [of x] by linarith
  moreover have "\<lfloor>y\<rfloor> \<le> round_half_even y"
    using rhe_floor_cases [of y] by linarith
  ultimately show ?thesis by linarith
qed


lemma py_round_mono: "x \<le> y \<Longrightarrow> py_round x n \<le> py_round y n"
  unfolding py_round_def
  by (intro divide_right_mono) (simp_all add: rhe_mono mult_right_mono)

lemma py_round_of_int [simp]: "py_round (of_int k) n = of_int k"
proof -
  have "real_of_int k * 10 ^ n = of_int (k * 10 ^ n)" by simp
  then have "round_half_even (real_of_int k * 10 ^ n) = k * 10 ^ n"
    using rhe_of_int by metis
  then show ?thesis by (simp add: py_round_def)
qed

lemma py_round_ge_int: "of_int k \<le> x \<Longrightarrow> of_int k \<le> py_round x n"
  using py_round_mono [of "of_int k" x n] by simp

lemma py_round_le_int: "x \<le> of_int k \<Longrightarrow> py_round x n \<le> of_int k"
  using py_round_mono [of x "of_int k" n] by simp


subsection \<open>The catalog and the shape of the pricer's result\<close>

lemma MATERIALS_cases:
  "MATERIALS m = Some p \<Longrightarrow> p = PLA \<or> p = ABS \<or> p = PETG \<or> p = TPU"
  by (auto simp: MATERIALS_def split: if_splits)

lemma MATERIALS_props:
  assumes "MATERIALS m = Some p"
  shows "0 < density p" "0 < price_per_kg p" "0 < print_speed_modifier p"
    "print_speed_modifier p \<le> 1"
  using MATERIALS_cases [OF assms] by (auto simp: PLA_def ABS_def PETG_def TPU_def)

lemma price_body_returns:
  assumes "layer_height \<noteq> 0" and "print_speed_modifier mat_props \<noteq> 0"
  shows "\<exists>v. price_body analysis mat_props infill layer_height include_supports = Inr v"
  using assms by (simp add: price_body_def py_div_def Let_def)

lemma price_body_layer_zero:
  "price_body analysis mat_props infill 0 include_supports = Inl ZeroDivisionError"
  by (simp add: price_body_def py_div_def Let_def)


lemma calculate_price_catalog:
  assumes "MATERIALS material = Some mat_props" and "layer_height \<noteq> 0"
  obtains v q where
    "price_body analysis mat_props infill layer_height include_supports = Inr v"
    "calculate_price analysis material infill layer_height include_supports = Inr q"
    "m_cost (q_material q) = py_round (material_cost v) 2"
    "m_weight_g (q_material q) = py_round (weight_g v) 2"
    "minutes (q_print_time q) = py_round (total_time_minutes v) 0"
    "c_material (q_costs q) = py_round (material_cost v) 2"
    "c_post_processing (q_costs q) = py_round (post_processing v) 2"
    "c_total (q_costs q) = py_round (total_price v) 2"
    "includes_supports (q_parameters q) = supports_included v"
proof -
  have "print_speed_modifier mat_props \<noteq> 0"
    using MATERIALS_props(3) [OF assms(1)] by simp
  from price_body_returns [OF assms(2) this]
  obtain v where
    v: "price_body analysis mat_props infill layer_height include_supports = Inr v"
    by blast
  have q: "calculate_price analysis material infill layer_height include_supports =
      Inr \<lparr>q_material = \<lparr>m_type = material, m_name = name mat_props,
                          m_weight_g = py_round (weight_g v) 2,
                          m_cost = py_round (material_cost v) 2\<rparr>,
            q_print_time = \<lparr>hours = py_round (total_time_hours v) 2,
                            minutes = py_round (total_time_minutes v) 0\<rparr>,
            q_costs = \<lparr>c_material = py_round (material_cost v) 2,
                       c_machine_time = py_round (machine_cost v) 2,
                       c_post_processing = py_round (post_processing v) 2,
                       c_subtotal = py_round (subtotal v) 2,
                       c_margin = py_round (margin_amount v) 2,
                       c_total = py_round (total_price v) 2\<rparr>,
            q_parameters = \<lparr>infill_percent = infill, layer_height_mm = layer_height,
                            includes_supports = supports_included v\<rparr>\<rparr>"
    by (simp add: calculate_price_def assms(1) v)
  show ?thesis
    by (rule that [OF v q]) simp_all
qed

text \<open>The locals of a returning call, one equation per assignment of the source.\<close>

lemma price_body_supports:
  assumes "price_body analysis mat_props infill layer_height include_supports = Inr v"
  shows "supports_included v =
           (case include_supports of None \<Rightarrow> needs_supports analysis | Some b \<Rightarrow> b)"
  using assms
  by (auto simp: price_body_def py_div_def Let_def split: if_splits)

lemma price_body_weight:
  assumes "price_body analysis mat_props infill layer_height include_supports = Inr v"
  shows "weight_g v =
           (volume_cm3 analysis * infill_multiplier infill
             + (if supports_included v then volume_cm3 analysis * 0.15 else 0))
           * density mat_props"
  using assms
  by (auto simp: price_body_def py_div_def Let_def split: if_splits)

lemma price_body_material_cost:
  assumes "price_body analysis mat_props infill layer_height include_supports = Inr v"
  shows "material_cost v = weight_g v / 1000 * price_per_kg mat_props"
  using assms
  by (auto simp: price_body_def py_div_def Let_def split: if_splits)






lemma infill_multiplier_mono: "a \<le> b \<Longrightarrow> infill_multiplier a \<le> infill_multiplier b"
  by (simp add: infill_multiplier_def)







subsection \<open>Evaluation at concrete inputs\<close>

text \<open>
  The scenario of the specification: a file of 500000 bytes, priced in PLA with the
  default parameters (infill 20, layer height 0.2, supports left to the analysis).
\<close>

lemmas model_defs =
  calculate_price_def price_body_def Let_def py_div_def py_round_def
  round_half_even_def MATERIALS_def PLA_def ABS_def PETG_def TPU_def PRICING_CONFIG_def
  infill_multiplier_def

lemma analysis_500000:
  "volume_cm3 (analyze_3d_file_simple file_path 500000) = 50"
  "surface_area_cm2 (analyze_3d_file_simple file_path 500000) = 300"
  "complexity_factor (analyze_3d_file_simple file_path 500000) = 0.5"
  "needs_supports (analyze_3d_file_simple file_path 500000)"
  "face_count (analyze_3d_file_simple file_path 500000) = 10000"
  "vertex_count (analyze_3d_file_simple file_path 500000) = 6000"
  by (simp_all add: analyze_3d_file_simple_def Let_def py_round_def round_half_even_def
      py_int_def)

lemma quote_500000_PLA:
  "calculate_price (analyze_3d_file_simple ''model.stl'' 500000) ''PLA'' 20 0.2 None =
     Inr \<lparr>q_material = \<lparr>m_type = ''PLA'', m_name = ''PLA (Standard)'',
                         m_weight_g = 26.66, m_cost = 0.67\<rparr>,
           q_print_time = \<lparr>hours = 2.71, minutes = 162\<rparr>,
           q_costs = \<lparr>c_material = 0.67, c_machine_time = 40.62, c_post_processing = 5.2,
                      c_subtotal = 46.49, c_margin = 11.62, c_total = 58.11\<rparr>,
           q_parameters = \<lparr>infill_percent = 20, layer_height_mm = 0.2,
                           includes_supports = True\<rparr>\<rparr>"
  by (simp add: model_defs analysis_500000)

lemma py_round_3_tenths: "py_round 0.3 3 = 0.3"
  by (simp add: py_round_def round_half_even_def)











subsection \<open>The minimum price\<close>



subsection \<open>The estimator's volume floor\<close>

text \<open>
  Claim C2. For every non-negative \<open>file_size\<close>, zero included, the record returned by
  \<^verbatim>\<open>analyze_3d_file_simple\<close> has \<open>volume_cm3 \<ge> 1\<close>: the floor \<open>max 1.0 \<dots>\<close> is applied,
  and the rounding to 3 decimals does not go below 1.
\<close>

theorem estimate_volume_floor:
  assumes "0 \<le> file_size"
  shows "1 \<le> volume_cm3 (analyze_3d_file_simple file_path file_size)"
proof -
  have "of_int 1 \<le> max (1.0::real) (of_int file_size / 100000 * 10)"
    by simp
  then have "of_int 1 \<le> py_round (max 1.0 (of_int file_size / 100000 * 10)) 3"
    by (rule py_round_ge_int)
  then show ?thesis
    by (simp add: analyze_3d_file_simple_def Let_def)
qed

theorem estimate_volume_floor_witness:
  "(0::int) \<le> 0 \<and> 1 \<le> volume_cm3 (analyze_3d_file_simple ''empty.stl'' 0)
   \<and> volume_cm3 (analyze_3d_file_simple ''empty.stl'' 0) = 1
   \<and> (0::int) \<le> 500000 \<and> 1 \<le> volume_cm3 (analyze_3d_file_simple ''model.stl'' 500000)
   \<and> volume_cm3 (analyze_3d_file_simple ''model.stl'' 500000) = 50"
proof -
  have z: "(0::int) \<le> 0" and h: "(0::int) \<le> 500000"
    by simp_all
  have "volume_cm3 (analyze_3d_file_simple ''empty.stl'' 0) = 1"
    and "volume_cm3 (analyze_3d_file_simple ''model.stl'' 500000) = 50"
    by (simp_all add: analyze_3d_file_simple_def Let_def py_round_def round_half_even_def)
  with estimate_volume_floor [OF z, of "''empty.stl''"]
    estimate_volume_floor [OF h, of "''model.stl''"] z h
  show ?thesis by blast
qed

subsection \<open>Complexity factor and the supports flag\<close>

text \<open>
  Claim C3, as amended. For every non-negative \<open>file_size\<close> the returned
  \<open>complexity_factor\<close> lies in \<open>[0, 1]\<close>. The flag \<open>needs_supports\<close> is computed from the
  complexity before its rounding to 3 decimals, so it equals \<open>300000 < file_size\<close>; on the
  returned (rounded) field this gives only: a returned complexity above 0.3 implies the
  flag, and the flag implies a returned complexity of at least 0.3. The counterexample
  below is the claim as written (flag equal to "returned complexity above 0.3"): at
  300400 bytes the complexity 0.3004 is above 0.3, and is returned as 0.3.
\<close>

theorem estimate_complexity_and_supports:
  assumes "0 \<le> file_size"
  shows "0 \<le> complexity_factor (analyze_3d_file_simple file_path file_size)
    \<and> complexity_factor (analyze_3d_file_simple file_path file_size) \<le> 1
    \<and> needs_supports (analyze_3d_file_simple file_path file_size) = (300000 < file_size)
    \<and> (0.3 < complexity_factor (analyze_3d_file_simple file_path file_size) \<longrightarrow>
         needs_supports (analyze_3d_file_simple file_path file_size))
    \<and> (needs_supports (analyze_3d_file_simple file_path file_size) \<longrightarrow>
         0.3 \<le> complexity_factor (analyze_3d_file_simple file_path file_size))"
proof -
  define c :: real where "c = min 1.0 (of_int file_size / 1000000)"
  have cf: "complexity_factor (analyze_3d_file_simple file_path file_size) = py_round c 3"
    and ns: "needs_supports (analyze_3d_file_simple file_path file_size) = (0.3 < c)"
    unfolding c_def analyze_3d_file_simple_def Let_def by simp_all
  from assms have "of_int 0 \<le> c" and "c \<le> of_int 1"
    by (simp_all add: c_def)
  then have lo: "0 \<le> py_round c 3" and hi: "py_round c 3 \<le> 1"
    using py_round_ge_int [of 0 c 3] py_round_le_int [of c 1 3] by simp_all
  have thr: "(0.3 < c) = (300000 < file_size)"
  proof -
    have "(0.3 < c) = (0.3 < real_of_int file_size / 1000000)"
      by (auto simp: c_def)
    also have "\<dots> = (real_of_int 300000 < real_of_int file_size)"
      by (simp add: field_simps)
    also have "\<dots> = (300000 < file_size)"
      by (simp only: of_int_less_iff)
    finally show ?thesis .
  qed
  have up: "0.3 < py_round c 3 \<longrightarrow> 0.3 < c"
  proof
    assume a: "0.3 < py_round c 3"
    show "0.3 < c"
    proof (rule ccontr)
      assume "\<not> 0.3 < c"
      then have "c \<le> 0.3" by simp
      from py_round_mono [OF this, of 3] a show False
        by (simp add: py_round_3_tenths)
    qed
  qed
  have down: "0.3 < c \<longrightarrow> 0.3 \<le> py_round c 3"
  proof
    assume "0.3 < c"
    then have "0.3 \<le> c" by simp
    from py_round_mono [OF this, of 3] show "0.3 \<le> py_round c 3"
      by (simp add: py_round_3_tenths)
  qed
  from lo hi thr up down show ?thesis
    unfolding cf ns by blast
qed

theorem estimate_complexity_and_supports_counterexample:
  "\<not> (needs_supports (analyze_3d_file_simple ''model.stl'' 300400)
        = (0.3 < complexity_factor (analyze_3d_file_simple ''model.stl'' 300400)))"
  by (simp add: analyze_3d_file_simple_def Let_def py_round_def round_half_even_def)

theorem estimate_complexity_and_supports_witness:
  "(0::int) \<le> 300400
   \<and> 0 \<le> complexity_factor (analyze_3d_file_simple ''model.stl'' 300400)
   \<and> complexity_factor (analyze_3d_file_simple ''model.stl'' 300400) \<le> 1
   \<and> needs_supports (analyze_3d_file_simple ''model.stl'' 300400)
   \<and> 0.3 \<le> complexity_factor (analyze_3d_file_simple ''model.stl'' 300400)
   \<and> (0::int) \<le> 500000
   \<and> 0.3 < complexity_factor (analyze_3d_file_simple ''model.stl'' 500000)
   \<and> needs_supports (analyze_3d_file_simple ''model.stl'' 500000)"
proof -
  have h: "(0::int) \<le> 300400" and k: "(0::int) \<le> 500000"
    by simp_all
  have c: "0.3 < complexity_factor (analyze_3d_file_simple ''model.stl'' 500000)"
    by (simp add: analysis_500000)
  from estimate_complexity_and_supports [OF h, of "''model.stl''"]
    estimate_complexity_and_supports [OF k, of "''model.stl''"] h k c
  show ?thesis
    by simp
qed

subsection \<open>Unknown materials\<close>

text \<open>
  Claim C5. For a material key that is not in the catalog, \<^verbatim>\<open>calculate_price\<close> raises
  the error that names the key (\<^verbatim>\<open>ValueError("Unknown material: <key>")\<close>, the
  specification's UnknownMaterialError) and returns no quote; for a key of the catalog
  and a layer height above 0 it returns a quote, so no such error is raised.
\<close>

theorem unknown_material_error:
  "(MATERIALS material = None \<longrightarrow>
      calculate_price analysis material infill layer_height include_supports
        = Inl (ValueError (''Unknown material: '' @ material)))
   \<and> (MATERIALS material \<noteq> None \<longrightarrow> 0 < layer_height \<longrightarrow>
        (\<exists>q. calculate_price analysis material infill layer_height include_supports = Inr q))"
proof (intro conjI impI)
  assume "MATERIALS material = None"
  then show "calculate_price analysis material infill layer_height include_supports
        = Inl (ValueError (''Unknown material: '' @ material))"
    by (simp add: calculate_price_def)
next
  assume "MATERIALS material \<noteq> None" and l: "0 < layer_height"
  then obtain mat_props where m: "MATERIALS material = Some mat_props"
    by blast
  from l have "layer_height \<noteq> 0" by simp
  from calculate_price_catalog [OF m this, of analysis infill include_supports]
  show "\<exists>q. calculate_price analysis material infill layer_height include_supports = Inr q"
    by blast
qed

theorem unknown_material_error_witness:
  "MATERIALS ''NYLON'' = None
   \<and> calculate_price (analyze_3d_file_simple ''model.stl'' 500000) ''NYLON'' 20 0.2 None
       = Inl (ValueError ''Unknown material: NYLON'')
   \<and> MATERIALS ''TPU'' \<noteq> None \<and> (0::real) < 0.2
   \<and> (\<exists>q. calculate_price (analyze_3d_file_simple ''model.stl'' 500000) ''TPU'' 20 0.2 None
             = Inr q)"
proof -
  have n: "MATERIALS ''NYLON'' = None" and t: "MATERIALS ''TPU'' \<noteq> None"
    by (simp_all add: MATERIALS_def)
  have l: "(0::real) < 0.2" by simp
  from unknown_material_error
    [of "''NYLON''" "analyze_3d_file_simple ''model.stl'' 500000" 20 "0.2" None] n
  have a: "calculate_price (analyze_3d_file_simple ''model.stl'' 500000) ''NYLON'' 20 0.2 None
       = Inl (ValueError ''Unknown material: NYLON'')"
    by simp
  from unknown_material_error
    [of "''TPU''" "analyze_3d_file_simple ''model.stl'' 500000" 20 "0.2" None] t l
  have b: "\<exists>q. calculate_price (analyze_3d_file_simple ''model.stl'' 500000) ''TPU'' 20 0.2 None
             = Inr q"
    by blast
  from n a t l b show ?thesis by blast
qed

subsection \<open>The division by the layer height\<close>

text \<open>
  Claim C9. The division \<^verbatim>\<open>0.2 / layer_height\<close> is not guarded: for a material of the
  catalog and \<open>layer_height = 0\<close> the call raises \<^verbatim>\<open>ZeroDivisionError\<close> and returns no
  quote, and for \<open>layer_height > 0\<close> it returns a quote (no arithmetic error).
\<close>

theorem layer_height_division:
  assumes "MATERIALS material \<noteq> None"
  shows "calculate_price analysis material infill 0 include_supports = Inl ZeroDivisionError
    \<and> (0 < layer_height \<longrightarrow>
          (\<exists>q. calculate_price analysis material infill layer_height include_supports = Inr q))"
proof (intro conjI impI)
  from assms obtain mat_props where m: "MATERIALS material = Some mat_props"
    by blast
  show "calculate_price analysis material infill 0 include_supports = Inl ZeroDivisionError"
    by (simp add: calculate_price_def m price_body_layer_zero)
  assume "0 < layer_height"
  then have "layer_height \<noteq> 0" by simp
  from calculate_price_catalog [OF m this, of analysis infill include_supports]
  show "\<exists>q. calculate_price analysis material infill layer_height include_supports = Inr q"
    by blast
qed

theorem layer_height_division_witness:
  "MATERIALS ''PLA'' \<noteq> None
   \<and> calculate_price (analyze_3d_file_simple ''model.stl'' 500000) ''PLA'' 20 0 None
       = Inl ZeroDivisionError
   \<and> (0::real) < 0.1
   \<and> (\<exists>q. calculate_price (analyze_3d_file_simple ''model.stl'' 500000) ''PLA'' 20 0.1 None
             = Inr q)"
proof -
  have m: "MATERIALS ''PLA'' \<noteq> None"
    by (simp add: MATERIALS_def)
  have l: "(0::real) < 0.1" by simp
  from layer_height_division
    [OF m, of "analyze_3d_file_simple ''model.stl'' 500000" 20 None "0.1"] m l
  show ?thesis by blast
qed

subsection \<open>The duplicated material cost\<close>

text \<open>
  Claim C10. In every quote that \<^verbatim>\<open>calculate_price\<close> returns, the \<open>cost\<close> field of the
  \<open>material\<close> section equals the \<open>material\<close> field of the \<open>costs\<close> section.
\<close>

theorem duplicated_material_cost_agrees:
  assumes "calculate_price analysis material infill layer_height include_supports = Inr q"
  shows "m_cost (q_material q) = c_material (q_costs q)"
  using assms
  by (auto simp: calculate_price_def split: option.splits sum.splits)

theorem duplicated_material_cost_agrees_witness:
  "calculate_price (analyze_3d_file_simple ''model.stl'' 500000) ''PLA'' 20 0.2 None =
     Inr \<lparr>q_material = \<lparr>m_type = ''PLA'', m_name = ''PLA (Standard)'',
                         m_weight_g = 26.66, m_cost = 0.67\<rparr>,
           q_print_time = \<lparr>hours = 2.71, minutes = 162\<rparr>,
           q_costs = \<lparr>c_material = 0.67, c_machine_time = 40.62, c_post_processing = 5.2,
                      c_subtotal = 46.49, c_margin = 11.62, c_total = 58.11\<rparr>,
           q_parameters = \<lparr>infill_percent = 20, layer_height_mm = 0.2,
                           includes_supports = True\<rparr>\<rparr>
   \<and> m_cost (q_material \<lparr>q_material = \<lparr>m_type = ''PLA'', m_name = ''PLA (Standard)'',
                         m_weight_g = 26.66, m_cost = 0.67\<rparr>,
           q_print_time = \<lparr>hours = 2.71, minutes = 162\<rparr>,
           q_costs = \<lparr>c_material = 0.67, c_machine_time = 40.62, c_post_processing = 5.2,
                      c_subtotal = 46.49, c_margin = 11.62, c_total = 58.11\<rparr>,
           q_parameters = \<lparr>infill_percent = 20, layer_height_mm = 0.2,
                           includes_supports = True\<rparr>\<rparr>)
     = c_material (q_costs \<lparr>q_material = \<lparr>m_type = ''PLA'', m_name = ''PLA (Standard)'',
                         m_weight_g = 26.66, m_cost = 0.67\<rparr>,
           q_print_time = \<lparr>hours = 2.71, minutes = 162\<rparr>,
           q_costs = \<lparr>c_material = 0.67, c_machine_time = 40.62, c_post_processing = 5.2,
                      c_subtotal = 46.49, c_margin = 11.62, c_total = 58.11\<rparr>,
           q_parameters = \<lparr>infill_percent = 20, layer_height_mm = 0.2,
                           includes_supports = True\<rparr>\<rparr>)"
  using quote_500000_PLA duplicated_material_cost_agrees [OF quote_500000_PLA]
  by (rule conjI)

subsection \<open>The infill multiplier\<close>




subsection \<open>Material cost is monotone in the infill\<close>

text \<open>
  Claim C6. For a fixed analysis record, a material of the catalog, a layer height
  above 0 and a fixed support setting, \<open>infill_a \<le> infill_b\<close> implies that the reported
  material cost (both copies of it, rounded to 2 decimals) for \<open>infill_a\<close> is at most the
  one for \<open>infill_b\<close>. The analysis record's volume is not negative (the data model has
  \<open>volume_cm3 \<ge> 1\<close>; the proof needs \<open>0 \<le> volume_cm3\<close> only).
\<close>

theorem material_cost_monotone_in_infill:
  assumes "MATERIALS material \<noteq> None" and "0 < layer_height"
    and "0 \<le> volume_cm3 analysis" and "infill_a \<le> infill_b"
  shows "\<exists>qa qb.
      calculate_price analysis material infill_a layer_height include_supports = Inr qa
    \<and> calculate_price analysis material infill_b layer_height include_supports = Inr qb
    \<and> c_material (q_costs qa) \<le> c_material (q_costs qb)
    \<and> m_cost (q_material qa) \<le> m_cost (q_material qb)"
proof -
  from assms(1) obtain mat_props where m: "MATERIALS material = Some mat_props"
    by blast
  from assms(2) have l: "layer_height \<noteq> 0" by simp
  from calculate_price_catalog [OF m l, of analysis infill_a include_supports]
  obtain va qa where
    va: "price_body analysis mat_props infill_a layer_height include_supports = Inr va"
    and qa: "calculate_price analysis material infill_a layer_height include_supports = Inr qa"
    and qa1: "m_cost (q_material qa) = py_round (material_cost va) 2"
    and qa2: "c_material (q_costs qa) = py_round (material_cost va) 2"
    by blast
  from calculate_price_catalog [OF m l, of analysis infill_b include_supports]
  obtain vb qb where
    vb: "price_body analysis mat_props infill_b layer_height include_supports = Inr vb"
    and qb: "calculate_price analysis material infill_b layer_height include_supports = Inr qb"
    and qb1: "m_cost (q_material qb) = py_round (material_cost vb) 2"
    and qb2: "c_material (q_costs qb) = py_round (material_cost vb) 2"
    by blast
  have d: "0 \<le> density mat_props" and p: "0 \<le> price_per_kg mat_props"
    using MATERIALS_props(1,2) [OF m] by simp_all
  have s: "supports_included va = supports_included vb"
    by (simp add: price_body_supports [OF va] price_body_supports [OF vb])
  have "volume_cm3 analysis * infill_multiplier infill_a
      \<le> volume_cm3 analysis * infill_multiplier infill_b"
    using assms(3,4) by (intro mult_left_mono infill_multiplier_mono)
  then have "weight_g va \<le> weight_g vb"
    unfolding price_body_weight [OF va] price_body_weight [OF vb] s
    using d by (intro mult_right_mono) simp_all
  then have "weight_g va / 1000 \<le> weight_g vb / 1000"
    by simp
  then have "material_cost va \<le> material_cost vb"
    unfolding price_body_material_cost [OF va] price_body_material_cost [OF vb]
    using p by (rule mult_right_mono)
  then have "py_round (material_cost va) 2 \<le> py_round (material_cost vb) 2"
    by (rule py_round_mono)
  with qa qb qa1 qa2 qb1 qb2 show ?thesis
    by simp
qed

theorem material_cost_monotone_in_infill_witness:
  "MATERIALS ''PETG'' \<noteq> None \<and> (0::real) < 0.2
   \<and> 0 \<le> volume_cm3 (analyze_3d_file_simple ''model.stl'' 500000) \<and> (20::real) \<le> 80
   \<and> (\<exists>qa qb.
      calculate_price (analyze_3d_file_simple ''model.stl'' 500000) ''PETG'' 20 0.2 None = Inr qa
    \<and> calculate_price (analyze_3d_file_simple ''model.stl'' 500000) ''PETG'' 80 0.2 None = Inr qb
    \<and> c_material (q_costs qa) \<le> c_material (q_costs qb)
    \<and> m_cost (q_material qa) \<le> m_cost (q_material qb))"
proof -
  have m: "MATERIALS ''PETG'' \<noteq> None"
    by (simp add: MATERIALS_def)
  have l: "(0::real) < 0.2" and i: "(20::real) \<le> 80"
    by simp_all
  have v: "0 \<le> volume_cm3 (analyze_3d_file_simple ''model.stl'' 500000)"
    by (simp add: analysis_500000)
  from material_cost_monotone_in_infill [OF m l v i, of None] m l v i show ?thesis
    by blast
qed

subsection \<open>Switching supports on\<close>




subsection \<open>Halving the layer height\<close>




end
